theory Spec2Isabelle
  imports Main
begin

section \<open>Data model (models.py)\<close>

text \<open>
  A \<open>datetime\<close> is a count of microseconds, the resolution of Python's
  \<open>datetime.utcnow()\<close>; \<open>timedelta(days=n)\<close> is the matching number of
  microseconds. Python integers are unbounded, so quantities are \<open>int\<close>.
  The three primary keys are all called \<open>id\<close> in the source; here they are
  \<open>u_id\<close>, \<open>b_id\<close> and \<open>r_id\<close>.
\<close>

type_synonym datetime = int

definition timedelta_days :: "int \<Rightarrow> int" where
  "timedelta_days n = n * 86400000000"

record user =
  u_id :: nat
  username :: string
  email :: string
  password :: string
  role :: string
  registration_date :: datetime

record book =
  b_id :: nat
  title :: string
  author :: string
  isbn :: string
  category :: string
  description :: string
  cover_image :: string
  quantity :: int
  available_quantity :: int
  publication_year :: "int option"

record borrow_record =
  r_id :: nat
  user_id :: nat
  book_id :: nat
  borrow_date :: datetime
  return_date :: "datetime option"
  due_date :: datetime
  status :: string

text \<open>\<open>Book.is_available\<close> and \<open>BorrowRecord.is_overdue\<close>; the clock reading
  that \<open>is_overdue\<close> takes with \<open>datetime.utcnow()\<close> is its first argument.\<close>

definition is_available :: "book \<Rightarrow> bool" where
  "is_available b = (available_quantity b > 0)"

definition is_overdue :: "datetime \<Rightarrow> borrow_record \<Rightarrow> bool" where
  "is_overdue now r = (if status r = ''returned'' then False else now > due_date r)"

section \<open>The database and the request environment\<close>

text \<open>
  A table is the list of its rows in insertion order. \<open>Model.query.get(k)\<close> and
  \<open>filter_by(...).first()\<close> are \<open>find\<close>; the \<open>UPDATE ... WHERE id = k\<close> that a
  commit issues for a changed object is \<open>update_book\<close> / \<open>update_record\<close>; a new row
  takes the key SQLite gives an INTEGER PRIMARY KEY, one more than the largest key of
  the table.
\<close>

record db =
  users :: "user list"
  books :: "book list"
  borrow_records :: "borrow_record list"


definition next_id :: "nat list \<Rightarrow> nat" where
  "next_id ks = Suc (fold max ks 0)"

definition get_user :: "db \<Rightarrow> nat \<Rightarrow> user option" where
  "get_user s k = find (\<lambda>u. u_id u = k) (users s)"

definition get_book :: "db \<Rightarrow> nat \<Rightarrow> book option" where
  "get_book s k = find (\<lambda>b. b_id b = k) (books s)"

definition get_record :: "db \<Rightarrow> nat \<Rightarrow> borrow_record option" where
  "get_record s k = find (\<lambda>r. r_id r = k) (borrow_records s)"

definition update_book :: "nat \<Rightarrow> (book \<Rightarrow> book) \<Rightarrow> book list \<Rightarrow> book list" where
  "update_book k f bs = map (\<lambda>b. if b_id b = k then f b else b) bs"

definition update_record ::
  "nat \<Rightarrow> (borrow_record \<Rightarrow> borrow_record) \<Rightarrow> borrow_record list \<Rightarrow> borrow_record list" where
  "update_record k f rs = map (\<lambda>r. if r_id r = k then f r else r) rs"

text \<open>
  What a request reads from outside the database: \<open>utcnow k\<close> is the value of the
  \<open>k\<close>-th call of \<open>datetime.utcnow()\<close> in the request (counted from 0),
  \<open>email_valid\<close> is the \<open>Email()\<close> validator of WTForms and
  \<open>generate_password_hash\<close> the salted hash of werkzeug.
\<close>

record env =
  utcnow :: "nat \<Rightarrow> datetime"
  email_valid :: "string \<Rightarrow> bool"
  generate_password_hash :: "string \<Rightarrow> string"

text \<open>The session holds the key of the logged-in user, if any; \<open>load_user\<close> reads
  the row.\<close>

definition current_user :: "db \<Rightarrow> nat option \<Rightarrow> user option" where
  "current_user s sess = (case sess of None \<Rightarrow> None | Some k \<Rightarrow> get_user s k)"

text \<open>The check of the decorator \<open>librarian_required\<close>.\<close>

definition librarian_required :: "user option \<Rightarrow> bool" where
  "librarian_required cu = (case cu of None \<Rightarrow> False | Some u \<Rightarrow> role u = ''librarian'')"

text \<open>
  What a handler answers. The source answers with a flashed message and a redirect or
  a page; each constructor stands for one of them:
  \<^item> \<open>Success\<close>: the operation was committed;
  \<^item> \<open>LoginRequired\<close>: \<open>login_required\<close> sends an anonymous visitor to the login page;
  \<^item> \<open>RoleDenied\<close>: "Access denied..." and "Only students can borrow books.";
  \<^item> \<open>NotFound\<close>: \<open>get_or_404\<close>;
  \<^item> \<open>Unavailable\<close>: "Sorry, this book is currently not available.";
  \<^item> \<open>DuplicateBorrow\<close>: "You have already borrowed this book.";
  \<^item> \<open>AlreadyReturned\<close>: "This book has already been returned.";
  \<^item> \<open>ValidationError\<close>: \<open>validate_on_submit\<close> failed and the form is shown again;
  \<^item> \<open>IsbnExists\<close>: "A book with this ISBN already exists.";
  \<^item> \<open>Conflict\<close>: "Cannot delete book with active borrows. Please wait for returns.";
  \<^item> \<open>Redirected\<close>: a redirect to the dashboard of the user's role, nothing done;
  \<^item> \<open>ServerError\<close>: an exception reached the 500 handler, which rolls back.
\<close>

datatype response =
    Success
  | LoginRequired
  | RoleDenied
  | NotFound
  | Unavailable
  | DuplicateBorrow
  | AlreadyReturned
  | ValidationError
  | IsbnExists
  | Conflict
  | Redirected
  | ServerError

section \<open>Forms (forms.py)\<close>

text \<open>
  The validators of WTForms, on the data of a submitted field. A character is a code
  point below 256. \<open>DataRequired\<close> accepts a string that is not empty after
  \<open>strip()\<close>, and a number that is present and not 0; \<open>Length\<close> bounds
  \<open>len\<close>; \<open>NumberRange\<close> refuses a missing number; a \<open>SelectField\<close> accepts
  only its choices.
\<close>

definition py_isspace :: "char \<Rightarrow> bool" where
  "py_isspace c = (let n = (of_char c :: nat) in
     (9 \<le> n \<and> n \<le> 13) \<or> (28 \<le> n \<and> n \<le> 32) \<or> n = 133 \<or> n = 160)"

definition py_isdigit_char :: "char \<Rightarrow> bool" where
  "py_isdigit_char c = (let n = (of_char c :: nat) in
     (48 \<le> n \<and> n \<le> 57) \<or> n = 178 \<or> n = 179 \<or> n = 185)"

definition isdigit :: "string \<Rightarrow> bool" where
  "isdigit s = (s \<noteq> [] \<and> list_all py_isdigit_char s)"

definition data_required :: "string \<Rightarrow> bool" where
  "data_required s = (\<not> list_all py_isspace s)"

definition data_required_int :: "int option \<Rightarrow> bool" where
  "data_required_int v = (case v of None \<Rightarrow> False | Some n \<Rightarrow> n \<noteq> 0)"

definition number_range :: "int \<Rightarrow> int \<Rightarrow> int option \<Rightarrow> bool" where
  "number_range lo hi v = (case v of None \<Rightarrow> False | Some n \<Rightarrow> lo \<le> n \<and> n \<le> hi)"

record registration_form =
  reg_username :: string
  reg_email :: string
  reg_password :: string
  reg_confirm_password :: string
  reg_role :: string

definition role_choices :: "string list" where
  "role_choices = [''student'', ''librarian'']"

definition validate_username :: "db \<Rightarrow> string \<Rightarrow> bool" where
  "validate_username s name = (find (\<lambda>u. username u = name) (users s) = None)"

definition validate_email :: "db \<Rightarrow> string \<Rightarrow> bool" where
  "validate_email s addr = (find (\<lambda>u. email u = addr) (users s) = None)"

definition validate_registration :: "env \<Rightarrow> db \<Rightarrow> registration_form \<Rightarrow> bool" where
  "validate_registration e s f =
     (data_required (reg_username f)
      \<and> 3 \<le> length (reg_username f) \<and> length (reg_username f) \<le> 20
      \<and> validate_username s (reg_username f)
      \<and> data_required (reg_email f) \<and> email_valid e (reg_email f)
      \<and> validate_email s (reg_email f)
      \<and> data_required (reg_password f) \<and> 8 \<le> length (reg_password f)
      \<and> data_required (reg_confirm_password f)
      \<and> reg_confirm_password f = reg_password f
      \<and> reg_role f \<in> set role_choices \<and> data_required (reg_role f))"

record book_form =
  form_title :: string
  form_author :: string
  form_isbn :: string
  form_category :: string
  form_description :: string
  form_quantity :: "int option"
  form_publication_year :: "int option"

definition category_choices :: "string list" where
  "category_choices = [''Fiction'', ''Non-Fiction'', ''Science'', ''Technology'',
     ''History'', ''Biography'', ''Mystery'', ''Romance'', ''Fantasy'', ''Self-Help'',
     ''Business'', ''Literature'']"

definition validate_isbn :: "string \<Rightarrow> bool" where
  "validate_isbn data =
     (let isbn_clean = filter (\<lambda>c. c \<noteq> CHR ''-'' \<and> c \<noteq> CHR '' '') data
      in isdigit isbn_clean \<and> length isbn_clean \<in> set [10, 13])"

definition validate_book_form :: "book_form \<Rightarrow> bool" where
  "validate_book_form f =
     (data_required (form_title f) \<and> length (form_title f) \<le> 200
      \<and> data_required (form_author f) \<and> length (form_author f) \<le> 100
      \<and> data_required (form_isbn f)
      \<and> 10 \<le> length (form_isbn f) \<and> length (form_isbn f) \<le> 13
      \<and> validate_isbn (form_isbn f)
      \<and> form_category f \<in> set category_choices \<and> data_required (form_category f)
      \<and> length (form_description f) \<le> 1000
      \<and> data_required_int (form_quantity f) \<and> number_range 1 1000 (form_quantity f)
      \<and> number_range 1000 2025 (form_publication_year f))"

section \<open>Request handlers (app.py)\<close>

text \<open>\<open>register\<close>: a logged-in user is redirected; otherwise a valid form adds the
  account, with the role the form carries.\<close>

definition register :: "env \<Rightarrow> nat option \<Rightarrow> registration_form \<Rightarrow> db \<Rightarrow> response \<times> db" where
  "register e sess f s =
     (case current_user s sess of
        Some cu \<Rightarrow> (Redirected, s)
      | None \<Rightarrow>
          if validate_registration e s f then
            (Success,
             s\<lparr>users := users s @
                [\<lparr>u_id = next_id (map u_id (users s)),
                  username = reg_username f,
                  email = reg_email f,
                  password = generate_password_hash e (reg_password f),
                  role = reg_role f,
                  registration_date = utcnow e 0\<rparr>]\<rparr>)
          else (ValidationError, s))"

text \<open>\<open>borrow_book\<close>: the role check, the lookup, the availability check and the
  check for a record of the same user and book with status \<open>borrowed\<close>, in the
  order of the source. The clock is read twice: for \<open>borrow_date\<close> and again for
  \<open>due_date\<close>.\<close>

definition borrow_book :: "env \<Rightarrow> nat option \<Rightarrow> nat \<Rightarrow> db \<Rightarrow> response \<times> db" where
  "borrow_book e sess bk s =
     (case current_user s sess of
        None \<Rightarrow> (LoginRequired, s)
      | Some cu \<Rightarrow>
          if role cu \<noteq> ''student'' then (RoleDenied, s)
          else (case get_book s bk of
            None \<Rightarrow> (NotFound, s)
          | Some b \<Rightarrow>
              if available_quantity b < 1 then (Unavailable, s)
              else if find (\<lambda>r. user_id r = u_id cu \<and> book_id r = bk \<and> status r = ''borrowed'')
                        (borrow_records s) \<noteq> None
              then (DuplicateBorrow, s)
              else
                (Success,
                 s\<lparr>books := update_book bk
                      (\<lambda>b. b\<lparr>available_quantity := available_quantity b - 1\<rparr>) (books s),
                   borrow_records := borrow_records s @
                     [\<lparr>r_id = next_id (map r_id (borrow_records s)),
                       user_id = u_id cu,
                       book_id = bk,
                       borrow_date = utcnow e 0,
                       return_date = None,
                       due_date = utcnow e 1 + timedelta_days 14,
                       status = ''borrowed''\<rparr>]\<rparr>)))"

text \<open>\<open>return_book\<close>. When \<open>Book.query.get\<close> finds no book, the attribute access
  on \<open>None\<close> raises and the 500 handler rolls the changes of the record back.\<close>

definition return_book :: "env \<Rightarrow> nat option \<Rightarrow> nat \<Rightarrow> db \<Rightarrow> response \<times> db" where
  "return_book e sess rec_id s =
     (case current_user s sess of
        None \<Rightarrow> (LoginRequired, s)
      | Some cu \<Rightarrow>
          (case get_record s rec_id of
             None \<Rightarrow> (NotFound, s)
           | Some br \<Rightarrow>
               if user_id br \<noteq> u_id cu \<and> role cu \<noteq> ''librarian'' then (RoleDenied, s)
               else if status br = ''returned'' then (AlreadyReturned, s)
               else (case get_book s (book_id br) of
                  None \<Rightarrow> (ServerError, s)
                | Some b \<Rightarrow>
                    (Success,
                     s\<lparr>borrow_records := update_record rec_id
                          (\<lambda>r. r\<lparr>return_date := Some (utcnow e 0), status := ''returned''\<rparr>)
                          (borrow_records s),
                       books := update_book (book_id br)
                          (\<lambda>b. b\<lparr>available_quantity := available_quantity b + 1\<rparr>)
                          (books s)\<rparr>))))"

text \<open>The loop of both dashboards: every record the query \<open>q\<close> selects with status
  \<open>borrowed\<close> is asked \<open>is_overdue\<close>, each with a clock reading of its own
  (\<open>k\<close> counts the readings taken so far), and marked \<open>overdue\<close> if so.\<close>

fun update_overdue ::
  "(nat \<Rightarrow> datetime) \<Rightarrow> nat \<Rightarrow> (borrow_record \<Rightarrow> bool) \<Rightarrow> borrow_record list \<Rightarrow> borrow_record list" where
  "update_overdue clk k q [] = []"
| "update_overdue clk k q (r # rs) =
     (if q r \<and> status r = ''borrowed'' then
        (if is_overdue (clk k) r then r\<lparr>status := ''overdue''\<rparr> else r)
          # update_overdue clk (Suc k) q rs
      else r # update_overdue clk k q rs)"

definition librarian_dashboard :: "env \<Rightarrow> nat option \<Rightarrow> db \<Rightarrow> response \<times> db" where
  "librarian_dashboard e sess s =
     (case current_user s sess of
        None \<Rightarrow> (LoginRequired, s)
      | Some cu \<Rightarrow>
          if \<not> librarian_required (Some cu) then (RoleDenied, s)
          else (Success,
                s\<lparr>borrow_records :=
                    update_overdue (utcnow e) 0 (\<lambda>r. True) (borrow_records s)\<rparr>))"

definition student_dashboard :: "env \<Rightarrow> nat option \<Rightarrow> db \<Rightarrow> response \<times> db" where
  "student_dashboard e sess s =
     (case current_user s sess of
        None \<Rightarrow> (LoginRequired, s)
      | Some cu \<Rightarrow>
          if role cu \<noteq> ''student'' then (Redirected, s)
          else (Success,
                s\<lparr>borrow_records :=
                    update_overdue (utcnow e) 0 (\<lambda>r. user_id r = u_id cu) (borrow_records s)\<rparr>))"

text \<open>\<open>add_book\<close>: all copies of a new book are available.\<close>

definition add_book :: "nat option \<Rightarrow> book_form \<Rightarrow> db \<Rightarrow> response \<times> db" where
  "add_book sess f s =
     (case current_user s sess of
        None \<Rightarrow> (LoginRequired, s)
      | Some cu \<Rightarrow>
          if \<not> librarian_required (Some cu) then (RoleDenied, s)
          else if \<not> validate_book_form f then (ValidationError, s)
          else if find (\<lambda>b. isbn b = form_isbn f) (books s) \<noteq> None then (IsbnExists, s)
          else (case form_quantity f of
             None \<Rightarrow> (ValidationError, s)
           | Some q \<Rightarrow>
               (Success,
                s\<lparr>books := books s @
                   [\<lparr>b_id = next_id (map b_id (books s)),
                     title = form_title f,
                     author = form_author f,
                     isbn = form_isbn f,
                     category = form_category f,
                     description = form_description f,
                     cover_image = ''default_book.jpg'',
                     quantity = q,
                     available_quantity = q,
                     publication_year = form_publication_year f\<rparr>]\<rparr>)))"

text \<open>\<open>edit_book\<close>: the number of borrowed copies is kept. The column \<open>isbn\<close> is
  unique, so a commit that gives the book the ISBN of another row raises and is
  rolled back by the 500 handler.\<close>

definition edit_book :: "nat option \<Rightarrow> nat \<Rightarrow> book_form \<Rightarrow> db \<Rightarrow> response \<times> db" where
  "edit_book sess bk f s =
     (case current_user s sess of
        None \<Rightarrow> (LoginRequired, s)
      | Some cu \<Rightarrow>
          if \<not> librarian_required (Some cu) then (RoleDenied, s)
          else (case get_book s bk of
             None \<Rightarrow> (NotFound, s)
           | Some b0 \<Rightarrow>
               if \<not> validate_book_form f then (ValidationError, s)
               else (case form_quantity f of
                  None \<Rightarrow> (ValidationError, s)
                | Some q \<Rightarrow>
                    if find (\<lambda>b. b_id b \<noteq> bk \<and> isbn b = form_isbn f) (books s) \<noteq> None
                    then (ServerError, s)
                    else
                      (Success,
                       s\<lparr>books := update_book bk
                          (\<lambda>b. let borrowed_count = quantity b - available_quantity b in
                             b\<lparr>title := form_title f,
                               author := form_author f,
                               isbn := form_isbn f,
                               category := form_category f,
                               description := form_description f,
                               quantity := q,
                               available_quantity := q - borrowed_count,
                               publication_year := form_publication_year f\<rparr>)
                          (books s)\<rparr>))))"

text \<open>\<open>delete_book\<close>: refused while a record of the book has status \<open>borrowed\<close>;
  otherwise the book goes, and with it (\<open>cascade='all, delete-orphan'\<close>) every
  record that refers to it.\<close>

definition delete_book :: "nat option \<Rightarrow> nat \<Rightarrow> db \<Rightarrow> response \<times> db" where
  "delete_book sess bk s =
     (case current_user s sess of
        None \<Rightarrow> (LoginRequired, s)
      | Some cu \<Rightarrow>
          if \<not> librarian_required (Some cu) then (RoleDenied, s)
          else (case get_book s bk of
             None \<Rightarrow> (NotFound, s)
           | Some b \<Rightarrow>
               if length (filter (\<lambda>r. book_id r = bk \<and> status r = ''borrowed'')
                            (borrow_records s)) > 0
               then (Conflict, s)
               else (Success,
                     s\<lparr>books := filter (\<lambda>b. b_id b \<noteq> bk) (books s),
                       borrow_records := filter (\<lambda>r. book_id r \<noteq> bk) (borrow_records s)\<rparr>)))"

text \<open>\<open>init_db\<close> on a database just created, where \<open>User.query.first()\<close> finds
  nobody: the sample accounts and books, every copy available, and no record.\<close>

definition init_db :: "env \<Rightarrow> db" where
  "init_db e =
    \<lparr>users =
      [\<lparr>u_id = 1, username = ''admin'', email = ''admin@library.com'',
      password = generate_password_hash e ''admin123'', role = ''librarian'',
      registration_date = utcnow e 0\<rparr>,
       \<lparr>u_id = 2, username = ''john_doe'', email = ''john@student.com'',
      password = generate_password_hash e ''student123'', role = ''student'',
      registration_date = utcnow e 1\<rparr>,
       \<lparr>u_id = 3, username = ''jane_smith'', email = ''jane@student.com'',
      password = generate_password_hash e ''student123'', role = ''student'',
      registration_date = utcnow e 2\<rparr>,
       \<lparr>u_id = 4, username = ''bob_wilson'', email = ''bob@student.com'',
      password = generate_password_hash e ''student123'', role = ''student'',
      registration_date = utcnow e 3\<rparr>],
     books =
      [\<lparr>b_id = 1, title = ''Python Programming'', author = ''John Smith'',
      isbn = ''9781234567897'', category = ''Technology'',
      description = ''A comprehensive guide to Python programming for beginners and experts.'',
      cover_image = ''default_book.jpg'', quantity = 5, available_quantity = 5,
      publication_year = Some 2023\<rparr>,
       \<lparr>b_id = 2, title = ''Web Development Fundamentals'', author = ''Sarah Johnson'',
      isbn = ''9781234567898'', category = ''Technology'',
      description = ''Learn HTML, CSS, JavaScript, and modern web development practices.'',
      cover_image = ''default_book.jpg'', quantity = 4, available_quantity = 4,
      publication_year = Some 2022\<rparr>,
       \<lparr>b_id = 3, title = ''Data Science Essentials'', author = ''Michael Brown'',
      isbn = ''9781234567899'', category = ''Science'',
      description = ''Master data analysis, visualization, and machine learning basics.'',
      cover_image = ''default_book.jpg'', quantity = 3, available_quantity = 3,
      publication_year = Some 2023\<rparr>,
       \<lparr>b_id = 4, title = ''The Great Gatsby'', author = ''F. Scott Fitzgerald'',
      isbn = ''9780743273565'', category = ''Fiction'',
      description = ''A classic American novel set in the Jazz Age.'',
      cover_image = ''default_book.jpg'', quantity = 6, available_quantity = 6,
      publication_year = Some 1925\<rparr>,
       \<lparr>b_id = 5, title = ''1984'', author = ''George Orwell'',
      isbn = ''9780451524935'', category = ''Fiction'',
      description = ''A dystopian social science fiction novel.'',
      cover_image = ''default_book.jpg'', quantity = 5, available_quantity = 5,
      publication_year = Some 1949\<rparr>,
       \<lparr>b_id = 6, title = ''Sapiens'', author = ''Yuval Noah Harari'',
      isbn = ''9780062316097'', category = ''History'',
      description = ''A brief history of humankind from the Stone Age to modern times.'',
      cover_image = ''default_book.jpg'', quantity = 4, available_quantity = 4,
      publication_year = Some 2011\<rparr>,
       \<lparr>b_id = 7, title = ''Atomic Habits'', author = ''James Clear'',
      isbn = ''9780735211292'', category = ''Self-Help'',
      description = ''An easy and proven way to build good habits and break bad ones.'',
      cover_image = ''default_book.jpg'', quantity = 7, available_quantity = 7,
      publication_year = Some 2018\<rparr>,
       \<lparr>b_id = 8, title = ''The Lean Startup'', author = ''Eric Ries'',
      isbn = ''9780307887894'', category = ''Business'',
      description = ''How constant innovation creates radically successful businesses.'',
      cover_image = ''default_book.jpg'', quantity = 3, available_quantity = 3,
      publication_year = Some 2011\<rparr>],
     borrow_records = []\<rparr>"

text \<open>The routes that change the database, as one step function.\<close>

datatype request =
    Register registration_form
  | BorrowBook nat
  | ReturnBook nat
  | LibrarianDashboard
  | StudentDashboard
  | AddBook book_form
  | EditBook nat book_form
  | DeleteBook nat

fun handle :: "env \<Rightarrow> nat option \<Rightarrow> request \<Rightarrow> db \<Rightarrow> response \<times> db" where
  "handle e sess (Register f) s = register e sess f s"
| "handle e sess (BorrowBook k) s = borrow_book e sess k s"
| "handle e sess (ReturnBook k) s = return_book e sess k s"
| "handle e sess LibrarianDashboard s = librarian_dashboard e sess s"
| "handle e sess StudentDashboard s = student_dashboard e sess s"
| "handle e sess (AddBook f) s = add_book sess f s"
| "handle e sess (EditBook k f) s = edit_book sess k f s"
| "handle e sess (DeleteBook k) s = delete_book sess k s"

section \<open>Copy counts\<close>

text \<open>
  The copies of book \<open>k\<close> that are out: the records that refer to it and are not
  \<open>returned\<close>. A database is \<open>consistent\<close> when primary keys are unique, every
  record refers to a book of the catalog, and for every book the total minus the
  available count is the number of copies out. \<open>counts_in_range\<close> is
  \<open>0 \<le> available_quantity \<le> quantity\<close> for every book.
\<close>

definition open_count :: "borrow_record list \<Rightarrow> nat \<Rightarrow> int" where
  "open_count rs k = int (length (filter (\<lambda>r. book_id r = k \<and> status r \<noteq> ''returned'') rs))"

definition consistent :: "db \<Rightarrow> bool" where
  "consistent s =
     (distinct (map r_id (borrow_records s)) \<and> distinct (map b_id (books s))
      \<and> list_all (\<lambda>r. get_book s (book_id r) \<noteq> None) (borrow_records s)
      \<and> list_all (\<lambda>b. quantity b - available_quantity b = open_count (borrow_records s) (b_id b))
           (books s))"

definition counts_in_range :: "db \<Rightarrow> bool" where
  "counts_in_range s =
     list_all (\<lambda>b. 0 \<le> available_quantity b \<and> available_quantity b \<le> quantity b) (books s)"


text \<open>A sequence of requests, each with its environment and session, run from a
  database; and whether along the way no edit that goes through sets a total below the
  copies out.\<close>

fun run :: "(env \<times> nat option \<times> request) list \<Rightarrow> db \<Rightarrow> db" where
  "run [] s = s"
| "run ((e, sess, req) # tr) s = run tr (snd (handle e sess req s))"


section \<open>A sample library\<close>

text \<open>
  One librarian and three students; three books. Of the five copies of book 1 three
  are out (one overdue), the only copy of book 2 is out, and of the two copies of
  book 3 one is out and overdue, the other came back.
\<close>

definition sample_env :: env where
  "sample_env = \<lparr>utcnow = (\<lambda>k. 1300000000000), email_valid = (\<lambda>a. CHR ''@'' \<in> set a),
     generate_password_hash = (\<lambda>p. ''pbkdf2:'' @ p)\<rparr>"

definition sample_users :: "user list" where
  "sample_users =
    [\<lparr>u_id = 1, username = ''admin'', email = ''admin@library.com'', password = ''h1'',
      role = ''librarian'', registration_date = 0\<rparr>,
     \<lparr>u_id = 2, username = ''john_doe'', email = ''john@student.com'', password = ''h2'',
      role = ''student'', registration_date = 0\<rparr>,
     \<lparr>u_id = 3, username = ''jane_smith'', email = ''jane@student.com'', password = ''h3'',
      role = ''student'', registration_date = 0\<rparr>,
     \<lparr>u_id = 4, username = ''bob_wilson'', email = ''bob@student.com'', password = ''h4'',
      role = ''student'', registration_date = 0\<rparr>]"

definition sample_books :: "book list" where
  "sample_books =
    [\<lparr>b_id = 1, title = ''Python Programming'', author = ''John Smith'',
      isbn = ''9781234567897'', category = ''Technology'', description = ''A guide'',
      cover_image = ''default_book.jpg'', quantity = 5, available_quantity = 2,
      publication_year = Some 2023\<rparr>,
     \<lparr>b_id = 2, title = ''1984'', author = ''George Orwell'',
      isbn = ''9780451524935'', category = ''Fiction'', description = ''A novel'',
      cover_image = ''default_book.jpg'', quantity = 1, available_quantity = 0,
      publication_year = Some 1949\<rparr>,
     \<lparr>b_id = 3, title = ''Sapiens'', author = ''Yuval Noah Harari'',
      isbn = ''9780062316097'', category = ''History'', description = ''A history'',
      cover_image = ''default_book.jpg'', quantity = 2, available_quantity = 1,
      publication_year = Some 2011\<rparr>]"

definition sample_records :: "borrow_record list" where
  "sample_records =
    [\<lparr>r_id = 1, user_id = 2, book_id = 1, borrow_date = 200000000000,
      return_date = None, due_date = 1409600000000, status = ''borrowed''\<rparr>,
     \<lparr>r_id = 2, user_id = 3, book_id = 1, borrow_date = 0,
      return_date = None, due_date = 1209600000000, status = ''borrowed''\<rparr>,
     \<lparr>r_id = 3, user_id = 4, book_id = 1, borrow_date = 0,
      return_date = None, due_date = 1209600000000, status = ''overdue''\<rparr>,
     \<lparr>r_id = 4, user_id = 2, book_id = 2, borrow_date = 200000000000,
      return_date = None, due_date = 1409600000000, status = ''borrowed''\<rparr>,
     \<lparr>r_id = 5, user_id = 3, book_id = 3, borrow_date = 0,
      return_date = None, due_date = 1209600000000, status = ''overdue''\<rparr>,
     \<lparr>r_id = 6, user_id = 4, book_id = 3, borrow_date = 0,
      return_date = Some 500000000000, due_date = 1209600000000, status = ''returned''\<rparr>]"

definition sample_db :: db where
  "sample_db = \<lparr>users = sample_users, books = sample_books, borrow_records = sample_records\<rparr>"

definition sample_book_form :: book_form where
  "sample_book_form =
    \<lparr>form_title = ''Python Programming'', form_author = ''John Smith'',
     form_isbn = ''9781234567897'', form_category = ''Technology'',
     form_description = ''A guide'', form_quantity = Some 2,
     form_publication_year = Some 2023\<rparr>"

definition sample_registration :: registration_form where
  "sample_registration =
    \<lparr>reg_username = ''mallory'', reg_email = ''mallory@example.com'',
     reg_password = ''password1'', reg_confirm_password = ''password1'',
     reg_role = ''librarian''\<rparr>"

text \<open>
  Requests on the empty database: a librarian and two students register, the librarian
  adds a book with two copies, and both students borrow it. After that, in
  \<open>careful_trace\<close> a visitor and a student ask for a total of one while both copies
  are out and are refused, then one copy comes back and the librarian takes the total
  down to one; in \<open>shrinking_trace\<close> the librarian does so while both copies are out.
  In \<open>ticking_env\<close> the clock advances by one microsecond from one reading to the
  next.
\<close>

definition small_total_form :: book_form where
  "small_total_form = sample_book_form\<lparr>form_quantity := Some 1\<rparr>"

definition ticking_env :: env where
  "ticking_env = \<lparr>utcnow = (\<lambda>k. 1300000000000 + int k),
     email_valid = (\<lambda>a. CHR ''@'' \<in> set a),
     generate_password_hash = (\<lambda>p. ''pbkdf2:'' @ p)\<rparr>"





section \<open>Lookups, fresh keys and updates\<close>

lemma fold_max_ge: "fold max ks (a::nat) \<ge> a"
proof (induction ks arbitrary: a)
  case Nil then show ?case by simp
next
  case (Cons x xs)
  have "a \<le> max x a" by simp
  also have "max x a \<le> fold max xs (max x a)" by (rule Cons.IH)
  finally show ?case by simp
qed

lemma fold_max_mem: "k \<in> set ks \<Longrightarrow> k \<le> fold max ks (a::nat)"
proof (induction ks arbitrary: a)
  case Nil then show ?case by simp
next
  case (Cons x xs)
  show ?case
  proof (cases "k = x")
    case True
    have "max x a \<le> fold max xs (max x a)" by (rule fold_max_ge)
    with True show ?thesis by simp
  next
    case False with Cons show ?thesis by simp
  qed
qed

lemma next_id_fresh: "k \<in> set ks \<Longrightarrow> k < next_id ks"
  by (simp add: next_id_def fold_max_mem less_Suc_eq_le)

lemma next_id_notin: "next_id ks \<notin> set ks"
  using next_id_fresh by blast

lemma find_update_book:
  "(\<And>b. b_id (f b) = b_id b) \<Longrightarrow>
   find (\<lambda>b. b_id b = k) (update_book j f bs) =
     map_option (\<lambda>b. if b_id b = j then f b else b) (find (\<lambda>b. b_id b = k) bs)"
  by (induction bs) (auto simp: update_book_def)

lemma find_update_record:
  "(\<And>r. r_id (f r) = r_id r) \<Longrightarrow>
   find (\<lambda>r. r_id r = k) (update_record j f rs) =
     map_option (\<lambda>r. if r_id r = j then f r else r) (find (\<lambda>r. r_id r = k) rs)"
  by (induction rs) (auto simp: update_record_def)

lemma find_None_append: "find P xs = None \<Longrightarrow> find P (xs @ ys) = find P ys"
  by (induction xs) auto

lemma find_fresh_record:
  "find (\<lambda>r. r_id r = next_id (map r_id rs)) rs = None"
  using next_id_notin[of "map r_id rs"] by (auto simp: find_None_iff image_iff)

lemma get_book_id: "get_book s k = Some b \<Longrightarrow> b_id b = k"
  by (auto simp: get_book_def find_Some_iff)

lemma get_record_id: "get_record s k = Some r \<Longrightarrow> r_id r = k"
  by (auto simp: get_record_def find_Some_iff)



lemmas sample_defs = sample_db_def sample_users_def sample_books_def sample_records_def
  sample_env_def sample_book_form_def sample_registration_def small_total_form_def
  ticking_env_def

lemmas validator_defs = validate_book_form_def validate_registration_def data_required_def
  py_isspace_def validate_isbn_def isdigit_def py_isdigit_char_def category_choices_def
  role_choices_def data_required_int_def number_range_def validate_username_def
  validate_email_def

lemma sample_admin: "current_user sample_db (Some 1) = Some (hd sample_users)"
  by (simp add: current_user_def get_user_def sample_defs)

lemma sample_admin_role: "role (hd sample_users) = ''librarian''"
  by (simp add: sample_defs)

lemma sample_book_form_valid: "validate_book_form sample_book_form"
  by (simp add: sample_defs validator_defs)

section \<open>Catalog edit\<close>

text \<open>
  C4. When a librarian's edit of a book goes through, the book's total is the
  submitted one and its available count is the new total minus the copies that were
  out, \<open>new_total - (old_total - old_available)\<close>. Taking the sample's book 1 from
  five copies to two while three are out leaves an available count of \<open>-1\<close>.
\<close>

theorem edit_book_recalculates:
  assumes "current_user s sess = Some cu" and "role cu = ''librarian''"
    and "get_book s bk = Some b0" and "validate_book_form f"
    and "form_quantity f = Some q"
    and "find (\<lambda>b. b_id b \<noteq> bk \<and> isbn b = form_isbn f) (books s) = None"
  shows "fst (edit_book sess bk f s) = Success
       \<and> map_option quantity (get_book (snd (edit_book sess bk f s)) bk) = Some q
       \<and> map_option available_quantity (get_book (snd (edit_book sess bk f s)) bk)
           = Some (q - (quantity b0 - available_quantity b0))"
  using assms get_book_id[OF assms(3)]
  by (simp add: edit_book_def librarian_required_def get_book_def find_update_book Let_def)

theorem edit_book_recalculates_witness:
  "fst (edit_book (Some 1) 1 sample_book_form sample_db) = Success
   \<and> map_option quantity (get_book (snd (edit_book (Some 1) 1 sample_book_form sample_db)) 1)
       = Some 2
   \<and> map_option available_quantity
        (get_book (snd (edit_book (Some 1) 1 sample_book_form sample_db)) 1) = Some (- 1)"
proof -
  have 3: "get_book sample_db 1 = Some (hd sample_books)"
    by (simp add: get_book_def sample_defs)
  have 5: "form_quantity sample_book_form = Some 2"
    by (simp add: sample_defs)
  have 6: "find (\<lambda>b. b_id b \<noteq> 1 \<and> isbn b = form_isbn sample_book_form) (books sample_db) = None"
    by (simp add: sample_defs)
  have 7: "quantity (hd sample_books) = 5" "available_quantity (hd sample_books) = 2"
    by (simp_all add: sample_defs)
  show ?thesis
    using edit_book_recalculates[OF sample_admin sample_admin_role 3 sample_book_form_valid 5 6]
    by (simp add: 7)
qed

section \<open>Borrowing\<close>

lemma sample_john: "current_user sample_db (Some 2) = Some (sample_users ! 1)"
  by (simp add: current_user_def get_user_def sample_defs)

lemma sample_john_fields: "role (sample_users ! 1) = ''student''" "u_id (sample_users ! 1) = 2"
  by (simp_all add: sample_defs)

lemma find_update_book_other:
  "(\<And>b. b_id (f b) = b_id b) \<Longrightarrow> k \<noteq> j \<Longrightarrow>
   find (\<lambda>b. b_id b = k) (update_book j f bs) = find (\<lambda>b. b_id b = k) bs"
  by (induction bs) (auto simp: update_book_def)

text \<open>The database after a borrow that goes through.\<close>

lemma borrow_book_success:
  assumes "current_user s sess = Some cu" and "role cu = ''student''"
    and "get_book s bk = Some b" and "1 \<le> available_quantity b"
    and "find (\<lambda>r. user_id r = u_id cu \<and> book_id r = bk \<and> status r = ''borrowed'')
           (borrow_records s) = None"
  shows "borrow_book e sess bk s =
     (Success,
      s\<lparr>books := update_book bk (\<lambda>b. b\<lparr>available_quantity := available_quantity b - 1\<rparr>) (books s),
        borrow_records := borrow_records s @
          [\<lparr>r_id = next_id (map r_id (borrow_records s)), user_id = u_id cu, book_id = bk,
            borrow_date = utcnow e 0, return_date = None,
            due_date = utcnow e 1 + timedelta_days 14, status = ''borrowed''\<rparr>]\<rparr>)"
  using assms by (simp add: borrow_book_def)

text \<open>
  What a borrow that goes through does, under any clock: one record is appended, with
  status \<open>borrowed\<close> and no return date; its \<open>borrow_date\<close> is the first clock
  reading of the request and its \<open>due_date\<close> the second reading plus 14 days; the
  book's available count goes down by exactly 1, and no other book changes. The due date
  is the borrow date plus 14 days exactly when the two readings are equal.
\<close>

lemma borrow_book_effect:
  assumes "current_user s sess = Some cu" and "role cu = ''student''"
    and "get_book s bk = Some b" and "1 \<le> available_quantity b"
    and "find (\<lambda>r. user_id r = u_id cu \<and> book_id r = bk \<and> status r = ''borrowed'')
           (borrow_records s) = None"
  shows "fst (borrow_book e sess bk s) = Success
       \<and> borrow_records (snd (borrow_book e sess bk s)) = borrow_records s @
           [\<lparr>r_id = next_id (map r_id (borrow_records s)), user_id = u_id cu, book_id = bk,
             borrow_date = utcnow e 0, return_date = None,
             due_date = utcnow e 1 + timedelta_days 14, status = ''borrowed''\<rparr>]
       \<and> get_book (snd (borrow_book e sess bk s)) bk
           = Some (b\<lparr>available_quantity := available_quantity b - 1\<rparr>)
       \<and> (k \<noteq> bk \<longrightarrow> get_book (snd (borrow_book e sess bk s)) k = get_book s k)"
proof -
  have id: "b_id b = bk" using assms(3) by (rule get_book_id)
  have same: "get_book (snd (borrow_book e sess bk s)) bk
      = Some (b\<lparr>available_quantity := available_quantity b - 1\<rparr>)"
    using assms(3) id
    by (simp add: borrow_book_success[OF assms] get_book_def find_update_book)
  have other: "k \<noteq> bk \<longrightarrow> get_book (snd (borrow_book e sess bk s)) k = get_book s k"
    by (simp add: borrow_book_success[OF assms] get_book_def find_update_book_other)
  show ?thesis
    using same other by (simp add: borrow_book_success[OF assms])
qed

lemma borrow_book_due_date:
  assumes "current_user s sess = Some cu" and "role cu = ''student''"
    and "get_book s bk = Some b" and "1 \<le> available_quantity b"
    and "find (\<lambda>r. user_id r = u_id cu \<and> book_id r = bk \<and> status r = ''borrowed'')
           (borrow_records s) = None"
  shows "due_date (last (borrow_records (snd (borrow_book e sess bk s))))
           = borrow_date (last (borrow_records (snd (borrow_book e sess bk s))))
             + timedelta_days 14
         \<longleftrightarrow> utcnow e 1 = utcnow e 0"
  by (simp add: borrow_book_success[OF assms])

text \<open>
  C5 at a clock that advances between the two readings of \<open>borrow_book\<close>. John (a
  student with no record of book 3) borrows book 3, which has one available copy, while
  the clock goes from 1300000000000 to 1300000000001 microseconds. One record is added
  and the count goes from 1 to 0, but the due date stored is the borrow date plus 14 days
  and one microsecond, not the borrow date plus 14 days that the claim and the comment
  at the column \<open>due_date\<close> in models.py state.
\<close>

theorem borrow_book_due_date_drifts:
  "fst (borrow_book ticking_env (Some 2) 3 sample_db) = Success
   \<and> borrow_records (snd (borrow_book ticking_env (Some 2) 3 sample_db)) = sample_records @
       [\<lparr>r_id = 7, user_id = 2, book_id = 3, borrow_date = 1300000000000, return_date = None,
         due_date = 2509600000001, status = ''borrowed''\<rparr>]
   \<and> 1300000000000 + timedelta_days 14 = 2509600000000
   \<and> map_option available_quantity (get_book sample_db 3) = Some 1
   \<and> map_option available_quantity
        (get_book (snd (borrow_book ticking_env (Some 2) 3 sample_db)) 3) = Some 0"
  by (simp add: borrow_book_def current_user_def get_user_def get_book_def update_book_def
      next_id_def timedelta_days_def sample_defs)

text \<open>
  C2, as the code has it. When the user already holds a record of the book with status
  \<open>borrowed\<close>, a borrow request changes nothing in the database, and for a student
  and a book with an available copy the answer is \<open>DuplicateBorrow\<close>. (The role
  check, the lookup and the availability check come first in \<open>borrow_book\<close>, so
  \<open>LoginRequired\<close>, \<open>RoleDenied\<close>, \<open>NotFound\<close> and \<open>Unavailable\<close> take
  precedence.)
\<close>

theorem borrow_book_duplicate:
  assumes "current_user s sess = Some cu"
    and "r \<in> set (borrow_records s)" and "user_id r = u_id cu" and "book_id r = bk"
    and "status r = ''borrowed''"
  shows "snd (borrow_book e sess bk s) = s
       \<and> (role cu = ''student'' \<and> (\<exists>b. get_book s bk = Some b \<and> 1 \<le> available_quantity b)
            \<longrightarrow> fst (borrow_book e sess bk s) = DuplicateBorrow)"
proof -
  have "find (\<lambda>r. user_id r = u_id cu \<and> book_id r = bk \<and> status r = ''borrowed'')
          (borrow_records s) \<noteq> None"
    using assms(2-5) by (auto simp: find_None_iff)
  then show ?thesis
    using assms(1) by (auto simp: borrow_book_def split: option.splits)
qed

theorem borrow_book_duplicate_witness:
  "snd (borrow_book sample_env (Some 2) 1 sample_db) = sample_db
   \<and> fst (borrow_book sample_env (Some 2) 1 sample_db) = DuplicateBorrow"
proof -
  have 2: "sample_records ! 0 \<in> set (borrow_records sample_db)"
    by (simp add: sample_defs)
  have 3: "user_id (sample_records ! 0) = u_id (sample_users ! 1)"
    "book_id (sample_records ! 0) = 1" "status (sample_records ! 0) = ''borrowed''"
    by (simp_all add: sample_defs)
  have 4: "\<exists>b. get_book sample_db 1 = Some b \<and> 1 \<le> available_quantity b"
    by (simp add: get_book_def sample_defs)
  from borrow_book_duplicate[OF sample_john 2 3, of sample_env] sample_john_fields(1) 4
  show ?thesis by blast
qed

text \<open>
  C2 as stated fails: John holds a \<open>borrowed\<close> record of book 2, whose only copy
  is out, and his second request is answered \<open>Unavailable\<close>, not
  \<open>DuplicateBorrow\<close>.
\<close>

theorem borrow_book_duplicate_counterexample:
  "current_user sample_db (Some 2) = Some (sample_users ! 1)
   \<and> sample_records ! 3 \<in> set (borrow_records sample_db)
   \<and> user_id (sample_records ! 3) = u_id (sample_users ! 1)
   \<and> book_id (sample_records ! 3) = 2
   \<and> status (sample_records ! 3) = ''borrowed''
   \<and> fst (borrow_book sample_env (Some 2) 2 sample_db) = Unavailable
   \<and> fst (borrow_book sample_env (Some 2) 2 sample_db) \<noteq> DuplicateBorrow"
  by (simp add: borrow_book_def current_user_def get_user_def get_book_def sample_defs)

text \<open>
  The check for an earlier borrow looks for status \<open>borrowed\<close> only. Jane's
  record of book 3 is \<open>overdue\<close>, and her second request for book 3 goes through:
  a second record is added and the last copy leaves the shelf.
\<close>

lemma borrow_book_overdue_not_blocked:
  "status (sample_records ! 4) = ''overdue'' \<and> user_id (sample_records ! 4) = 3
   \<and> book_id (sample_records ! 4) = 3
   \<and> fst (borrow_book sample_env (Some 3) 3 sample_db) = Success
   \<and> length (borrow_records (snd (borrow_book sample_env (Some 3) 3 sample_db)))
       = Suc (length (borrow_records sample_db))
   \<and> map_option available_quantity (get_book (snd (borrow_book sample_env (Some 3) 3 sample_db)) 3)
       = Some 0"
  by (simp add: borrow_book_def current_user_def get_user_def get_book_def sample_defs
      update_book_def)

section \<open>Returning\<close>

text \<open>
  C6. A return request for a record whose status is already \<open>returned\<close> changes
  nothing in the database, whoever sends it: no count is incremented again, and the
  record keeps its return date and status. Sent by the record's owner or by a
  librarian, it is answered \<open>AlreadyReturned\<close>.
\<close>

theorem return_book_already_returned:
  assumes "get_record s rid = Some br" and "status br = ''returned''"
  shows "snd (return_book e sess rid s) = s
       \<and> (\<forall>cu. current_user s sess = Some cu \<and> (user_id br = u_id cu \<or> role cu = ''librarian'')
             \<longrightarrow> fst (return_book e sess rid s) = AlreadyReturned)"
  using assms by (auto simp: return_book_def split: option.splits)

theorem return_book_already_returned_witness:
  "snd (return_book sample_env (Some 4) 6 sample_db) = sample_db
   \<and> fst (return_book sample_env (Some 4) 6 sample_db) = AlreadyReturned
   \<and> fst (return_book sample_env (Some 1) 6 sample_db) = AlreadyReturned"
proof -
  have 1: "get_record sample_db 6 = Some (sample_records ! 5)"
    by (simp add: get_record_def sample_defs)
  have 2: "status (sample_records ! 5) = ''returned''"
    by (simp add: sample_defs)
  have 3: "current_user sample_db (Some 4) = Some (sample_users ! 3)"
    by (simp add: current_user_def get_user_def sample_defs)
  have 4: "user_id (sample_records ! 5) = u_id (sample_users ! 3)"
    by (simp add: sample_defs)
  from return_book_already_returned[OF 1 2, of sample_env "Some 4"] 3 4
  have a: "snd (return_book sample_env (Some 4) 6 sample_db) = sample_db"
    and b: "fst (return_book sample_env (Some 4) 6 sample_db) = AlreadyReturned"
    by blast+
  from return_book_already_returned[OF 1 2, of sample_env "Some 1"] sample_admin sample_admin_role
  have c: "fst (return_book sample_env (Some 1) 6 sample_db) = AlreadyReturned"
    by blast
  from a b c show ?thesis by simp
qed

text \<open>The database after a return that goes through, and the second call of the
  same request: it finds the record returned and leaves everything as it is.\<close>

lemma return_book_success:
  assumes "current_user s sess = Some cu" and "get_record s rid = Some br"
    and "user_id br = u_id cu \<or> role cu = ''librarian''"
    and "status br \<noteq> ''returned''" and "get_book s (book_id br) = Some b"
  shows "return_book e sess rid s =
    (Success,
     s\<lparr>borrow_records := update_record rid
          (\<lambda>r. r\<lparr>return_date := Some (utcnow e 0), status := ''returned''\<rparr>) (borrow_records s),
       books := update_book (book_id br)
          (\<lambda>b. b\<lparr>available_quantity := available_quantity b + 1\<rparr>) (books s)\<rparr>)"
  using assms by (auto simp: return_book_def)

lemma return_book_twice:
  assumes "return_book e sess rid s = (Success, s')"
  shows "return_book e' sess rid s' = (AlreadyReturned, s')"
proof -
  from assms obtain cu br b where
    cu: "current_user s sess = Some cu" and br: "get_record s rid = Some br"
    and auth: "user_id br = u_id cu \<or> role cu = ''librarian''"
    and b: "get_book s (book_id br) = Some b" and st: "status br \<noteq> ''returned''"
    by (auto simp: return_book_def split: option.splits if_splits)
  have s': "s' = s\<lparr>borrow_records := update_record rid
          (\<lambda>r. r\<lparr>return_date := Some (utcnow e 0), status := ''returned''\<rparr>) (borrow_records s),
       books := update_book (book_id br)
          (\<lambda>b. b\<lparr>available_quantity := available_quantity b + 1\<rparr>) (books s)\<rparr>"
    using assms return_book_success[OF cu br auth st b, of e] by simp
  have cu': "current_user s' sess = Some cu"
    using cu by (simp add: s' current_user_def get_user_def split: option.splits)
  have br': "get_record s' rid = Some (br\<lparr>return_date := Some (utcnow e 0), status := ''returned''\<rparr>)"
    using br get_record_id[OF br] by (simp add: s' get_record_def find_update_record)
  show ?thesis
    using cu' br' auth by (auto simp: return_book_def)
qed

lemma update_book_inverse:
  "update_book k (\<lambda>b. b\<lparr>available_quantity := available_quantity b + 1\<rparr>)
     (update_book k (\<lambda>b. b\<lparr>available_quantity := available_quantity b - 1\<rparr>) bs) = bs"
  by (induction bs) (auto simp: update_book_def)

text \<open>
  C7. A student borrows a book that exists, has at least one available copy and of
  which the student holds no record with status \<open>borrowed\<close>, and at once returns the
  record the borrow created (the last row of the table), under any clock: both requests
  go through, and afterwards the
  table of books is what it was before the borrow; in particular the book's available
  count is back at its value before the borrow.
\<close>

theorem borrow_then_return_restores:
  assumes "current_user s sess = Some cu" and "role cu = ''student''"
    and "get_book s bk = Some b" and "1 \<le> available_quantity b"
    and "find (\<lambda>r. user_id r = u_id cu \<and> book_id r = bk \<and> status r = ''borrowed'')
           (borrow_records s) = None"
  shows "fst (borrow_book e sess bk s) = Success
       \<and> fst (return_book e' sess (r_id (last (borrow_records (snd (borrow_book e sess bk s)))))
                (snd (borrow_book e sess bk s))) = Success
       \<and> books (snd (return_book e' sess (r_id (last (borrow_records (snd (borrow_book e sess bk s)))))
                (snd (borrow_book e sess bk s)))) = books s
       \<and> map_option available_quantity
           (get_book (snd (return_book e' sess
               (r_id (last (borrow_records (snd (borrow_book e sess bk s)))))
               (snd (borrow_book e sess bk s)))) bk) = Some (available_quantity b)"
proof -
  define new where "new = \<lparr>r_id = next_id (map r_id (borrow_records s)), user_id = u_id cu,
     book_id = bk, borrow_date = utcnow e 0, return_date = None,
     due_date = utcnow e 1 + timedelta_days 14, status = ''borrowed''\<rparr>"
  define s1 where "s1 = s\<lparr>books := update_book bk
       (\<lambda>b. b\<lparr>available_quantity := available_quantity b - 1\<rparr>) (books s),
     borrow_records := borrow_records s @ [new]\<rparr>"
  have borrow: "borrow_book e sess bk s = (Success, s1)"
    unfolding s1_def new_def by (rule borrow_book_success[OF assms])
  have rid: "r_id (last (borrow_records s1)) = next_id (map r_id (borrow_records s))"
    by (simp add: s1_def new_def)
  have cu1: "current_user s1 sess = Some cu"
    using assms(1) by (simp add: s1_def current_user_def get_user_def split: option.splits)
  have rec: "get_record s1 (next_id (map r_id (borrow_records s))) = Some new"
    by (simp add: s1_def get_record_def find_None_append[OF find_fresh_record]) (simp add: new_def)
  have bk1: "get_book s1 (book_id new) = Some (b\<lparr>available_quantity := available_quantity b - 1\<rparr>)"
    using assms(3) get_book_id[OF assms(3)]
    by (simp add: s1_def new_def get_book_def find_update_book)
  have own: "user_id new = u_id cu \<or> role cu = ''librarian''" by (simp add: new_def)
  have st: "status new \<noteq> ''returned''" by (simp add: new_def)
  have ret: "return_book e' sess (next_id (map r_id (borrow_records s))) s1 =
    (Success,
     s1\<lparr>borrow_records := update_record (next_id (map r_id (borrow_records s)))
          (\<lambda>r. r\<lparr>return_date := Some (utcnow e' 0), status := ''returned''\<rparr>) (borrow_records s1),
       books := update_book (book_id new)
          (\<lambda>b. b\<lparr>available_quantity := available_quantity b + 1\<rparr>) (books s1)\<rparr>)"
    by (rule return_book_success[OF cu1 rec own st bk1])
  have books: "update_book (book_id new)
          (\<lambda>b. b\<lparr>available_quantity := available_quantity b + 1\<rparr>) (books s1) = books s"
    by (simp add: s1_def new_def update_book_inverse)
  show ?thesis
    using assms(3) by (simp add: borrow rid ret books get_book_def)
qed

theorem borrow_then_return_restores_witness:
  "fst (borrow_book sample_env (Some 2) 3 sample_db) = Success
   \<and> r_id (last (borrow_records (snd (borrow_book sample_env (Some 2) 3 sample_db)))) = 7
   \<and> fst (return_book sample_env (Some 2) 7 (snd (borrow_book sample_env (Some 2) 3 sample_db)))
       = Success
   \<and> map_option available_quantity (get_book sample_db 3) = Some 1
   \<and> map_option available_quantity
       (get_book (snd (borrow_book sample_env (Some 2) 3 sample_db)) 3) = Some 0
   \<and> map_option available_quantity
       (get_book (snd (return_book sample_env (Some 2) 7
          (snd (borrow_book sample_env (Some 2) 3 sample_db)))) 3) = Some 1"
proof -
  have 3: "get_book sample_db 3 = Some (sample_books ! 2)"
    by (simp add: get_book_def sample_defs)
  have 4: "1 \<le> available_quantity (sample_books ! 2)"
    by (simp add: sample_defs)
  have 5: "find (\<lambda>r. user_id r = u_id (sample_users ! 1) \<and> book_id r = 3 \<and> status r = ''borrowed'')
           (borrow_records sample_db) = None"
    by (simp add: sample_defs)
  have 6: "r_id (last (borrow_records (snd (borrow_book sample_env (Some 2) 3 sample_db)))) = 7"
    by (subst borrow_book_success[OF sample_john sample_john_fields(1) 3 4 5])
       (simp add: next_id_def sample_defs)
  have 7: "map_option available_quantity
       (get_book (snd (borrow_book sample_env (Some 2) 3 sample_db)) 3) = Some 0"
    by (subst borrow_book_success[OF sample_john sample_john_fields(1) 3 4 5])
       (simp add: get_book_def update_book_def sample_defs)
  have 8: "available_quantity (sample_books ! 2) = 1"
    by (simp add: sample_defs)
  show ?thesis
    using borrow_then_return_restores[OF sample_john sample_john_fields(1) 3 4 5,
        of sample_env sample_env]
    by (simp add: 3 6 7 8)
qed

section \<open>Registration\<close>

text \<open>
  C9. A registration whose username is, character for character, the username of an
  existing account leaves the database unchanged, so no account is created; sent by a
  visitor who is not logged in (a logged-in user is redirected before the form is
  looked at) it is answered \<open>ValidationError\<close>.
\<close>

theorem register_duplicate_username:
  assumes "u \<in> set (users s)" and "username u = reg_username f"
  shows "snd (register e sess f s) = s
       \<and> (current_user s sess = None \<longrightarrow> fst (register e sess f s) = ValidationError)"
proof -
  have "find (\<lambda>u. username u = reg_username f) (users s) \<noteq> None"
    using assms by (auto simp: find_None_iff)
  then have "\<not> validate_registration e s f"
    by (simp add: validate_registration_def validate_username_def)
  then show ?thesis
    by (simp add: register_def split: option.splits)
qed

theorem register_duplicate_username_witness:
  "snd (register sample_env None (sample_registration\<lparr>reg_username := ''admin''\<rparr>) sample_db)
     = sample_db
   \<and> fst (register sample_env None (sample_registration\<lparr>reg_username := ''admin''\<rparr>) sample_db)
     = ValidationError"
proof -
  have 1: "hd sample_users \<in> set (users sample_db)" by (simp add: sample_defs)
  have 2: "username (hd sample_users) = reg_username (sample_registration\<lparr>reg_username := ''admin''\<rparr>)"
    by (simp add: sample_defs)
  have 3: "current_user sample_db None = None" by (simp add: current_user_def)
  from register_duplicate_username[OF 1 2, of sample_env None] 3
  show ?thesis by blast
qed

text \<open>The comparison is exact: \<open>Admin\<close> is free while \<open>admin\<close> is taken.\<close>

lemma register_username_case_sensitive:
  "fst (register sample_env None (sample_registration\<lparr>reg_username := ''Admin''\<rparr>) sample_db)
     = Success"
  by (simp add: register_def current_user_def sample_defs validator_defs)

text \<open>
  C10. \<open>register\<close> stores the role the form carries. A visitor who is not logged in
  and submits a valid form with role \<open>librarian\<close> gets an account with that role,
  and a session of that account passes \<open>librarian_required\<close>, the only gate of the
  catalog handlers. Nothing in \<open>register\<close> or in \<open>validate_registration\<close> asks who
  the visitor is.
\<close>

theorem register_as_librarian:
  assumes "current_user s sess = None" and "validate_registration e s f"
    and "reg_role f = ''librarian''"
  shows "fst (register e sess f s) = Success
       \<and> map_option role
           (current_user (snd (register e sess f s)) (Some (next_id (map u_id (users s)))))
           = Some ''librarian''
       \<and> librarian_required
           (current_user (snd (register e sess f s)) (Some (next_id (map u_id (users s)))))"
proof -
  have "find (\<lambda>u. u_id u = next_id (map u_id (users s))) (users s) = None"
    using next_id_notin[of "map u_id (users s)"] by (auto simp: find_None_iff image_iff)
  then show ?thesis
    using assms
    by (simp add: register_def current_user_def get_user_def find_None_append
        librarian_required_def)
qed

theorem register_as_librarian_witness:
  "current_user sample_db None = None
   \<and> fst (register sample_env None sample_registration sample_db) = Success
   \<and> map_option username (current_user (snd (register sample_env None sample_registration sample_db))
        (Some 5)) = Some ''mallory''
   \<and> map_option role (current_user (snd (register sample_env None sample_registration sample_db))
        (Some 5)) = Some ''librarian''
   \<and> librarian_required (current_user (snd (register sample_env None sample_registration sample_db))
        (Some 5))"
proof -
  have 1: "current_user sample_db None = None" by (simp add: current_user_def)
  have 2: "validate_registration sample_env sample_db sample_registration"
    by (simp add: sample_defs validator_defs)
  have 3: "reg_role sample_registration = ''librarian''" by (simp add: sample_defs)
  have 4: "next_id (map u_id (users sample_db)) = 5" by (simp add: sample_defs next_id_def)
  have 5: "map_option username (current_user (snd (register sample_env None sample_registration sample_db))
        (Some 5)) = Some ''mallory''"
    using 1 2 by (simp add: register_def current_user_def get_user_def next_id_def sample_defs)
  show ?thesis
    using register_as_librarian[OF 1 2 3] 1 5 by (simp add: 4)
qed

text \<open>The account registered this way adds a book to the catalog.\<close>

lemma registered_librarian_adds_book:
  "fst (add_book (Some 5) (sample_book_form\<lparr>form_isbn := ''9780000000002''\<rparr>)
         (snd (register sample_env None sample_registration sample_db))) = Success"
  by (simp add: add_book_def register_def current_user_def get_user_def librarian_required_def
      next_id_def sample_defs validator_defs)

section \<open>Overdue status\<close>

text \<open>The loop when every clock reading of the request is the same instant, and what it
  does under any clock: it keeps the length of the table and never takes a record out of
  status \<open>overdue\<close>.\<close>

lemma update_overdue_const:
  "update_overdue (\<lambda>k. now) k q rs =
     map (\<lambda>r. if q r \<and> status r = ''borrowed'' \<and> due_date r < now
               then r\<lparr>status := ''overdue''\<rparr> else r) rs"
  by (induction rs arbitrary: k) (auto simp: is_overdue_def)

lemma update_overdue_length: "length (update_overdue clk k q rs) = length rs"
  by (induction rs arbitrary: k) auto

lemma update_overdue_monotone:
  "list_all2 (\<lambda>r r'. status r = ''overdue'' \<longrightarrow> status r' = ''overdue'')
     rs (update_overdue clk k q rs)"
  by (induction rs arbitrary: k) auto

lemma update_overdue_idem:
  "update_overdue (\<lambda>k. now) k' q (update_overdue (\<lambda>k. now) k q rs)
     = update_overdue (\<lambda>k. now) k q rs"
  by (simp add: update_overdue_const)

text \<open>
  C8. The librarian's dashboard, answered at the instant \<open>now\<close> (every clock reading
  of the request returns it), marks \<open>overdue\<close> exactly the records with status
  \<open>borrowed\<close> whose due date is before \<open>now\<close> and leaves every other record as
  it is; the same request again at the same instant changes nothing; and under any
  clock a record that was \<open>overdue\<close> before the request is \<open>overdue\<close> after it.
\<close>

theorem refresh_overdue_status:
  assumes "current_user s sess = Some cu" and "role cu = ''librarian''"
    and "utcnow e = (\<lambda>k. now)"
  shows "fst (librarian_dashboard e sess s) = Success
       \<and> borrow_records (snd (librarian_dashboard e sess s)) =
           map (\<lambda>r. if status r = ''borrowed'' \<and> due_date r < now
                     then r\<lparr>status := ''overdue''\<rparr> else r) (borrow_records s)
       \<and> librarian_dashboard e sess (snd (librarian_dashboard e sess s))
           = (Success, snd (librarian_dashboard e sess s))
       \<and> list_all2 (\<lambda>r r'. status r = ''overdue'' \<longrightarrow> status r' = ''overdue'')
           (borrow_records s) (borrow_records (snd (librarian_dashboard e' sess s)))"
proof -
  have run: "librarian_dashboard e sess s =
      (Success, s\<lparr>borrow_records := update_overdue (\<lambda>k. now) 0 (\<lambda>r. True) (borrow_records s)\<rparr>)"
    using assms by (simp add: librarian_dashboard_def librarian_required_def)
  have cu': "current_user (s\<lparr>borrow_records := rs\<rparr>) sess = Some cu" for rs
    using assms(1) by (simp add: current_user_def get_user_def split: option.splits)
  have again: "librarian_dashboard e sess (snd (librarian_dashboard e sess s))
           = (Success, snd (librarian_dashboard e sess s))"
    unfolding run snd_conv
    using assms(2,3) cu'
    by (simp add: librarian_dashboard_def librarian_required_def update_overdue_idem)
  have mono: "list_all2 (\<lambda>r r'. status r = ''overdue'' \<longrightarrow> status r' = ''overdue'')
           (borrow_records s) (borrow_records (snd (librarian_dashboard e' sess s)))"
    using assms(1,2) update_overdue_monotone[of "borrow_records s" "utcnow e'" 0 "\<lambda>r. True"]
    by (simp add: librarian_dashboard_def librarian_required_def)
  show ?thesis
    using again mono by (simp add: run update_overdue_const)
qed

theorem refresh_overdue_status_witness:
  "fst (librarian_dashboard sample_env (Some 1) sample_db) = Success
   \<and> map status (borrow_records sample_db)
       = [''borrowed'', ''borrowed'', ''overdue'', ''borrowed'', ''overdue'', ''returned'']
   \<and> map (\<lambda>r. due_date r < 1300000000000) (borrow_records sample_db)
       = [False, True, True, False, True, True]
   \<and> map status (borrow_records (snd (librarian_dashboard sample_env (Some 1) sample_db)))
       = [''borrowed'', ''overdue'', ''overdue'', ''borrowed'', ''overdue'', ''returned'']
   \<and> librarian_dashboard sample_env (Some 1) (snd (librarian_dashboard sample_env (Some 1) sample_db))
       = (Success, snd (librarian_dashboard sample_env (Some 1) sample_db))"
proof -
  have 3: "utcnow sample_env = (\<lambda>k. 1300000000000)" by (simp add: sample_defs)
  have 4: "map status (borrow_records sample_db)
       = [''borrowed'', ''borrowed'', ''overdue'', ''borrowed'', ''overdue'', ''returned'']"
    "map (\<lambda>r. due_date r < 1300000000000) (borrow_records sample_db)
       = [False, True, True, False, True, True]"
    by (simp_all add: sample_defs)
  from refresh_overdue_status[OF sample_admin sample_admin_role 3, of sample_env]
  have a: "fst (librarian_dashboard sample_env (Some 1) sample_db) = Success"
    and b: "borrow_records (snd (librarian_dashboard sample_env (Some 1) sample_db)) =
           map (\<lambda>r. if status r = ''borrowed'' \<and> due_date r < 1300000000000
                     then r\<lparr>status := ''overdue''\<rparr> else r) (borrow_records sample_db)"
    and c: "librarian_dashboard sample_env (Some 1)
              (snd (librarian_dashboard sample_env (Some 1) sample_db))
           = (Success, snd (librarian_dashboard sample_env (Some 1) sample_db))"
    by blast+
  have 5: "map status (borrow_records (snd (librarian_dashboard sample_env (Some 1) sample_db)))
       = [''borrowed'', ''overdue'', ''overdue'', ''borrowed'', ''overdue'', ''returned'']"
    unfolding b by (simp add: sample_defs)
  from a c 4 5 show ?thesis by blast
qed

text \<open>A record borrowed at \<open>t\<close> for 14 days is overdue at \<open>t\<close> + 15 days and not at
  \<open>t\<close> + 10 days.\<close>

lemma refresh_scenario:
  "is_overdue (t + timedelta_days 15) \<lparr>r_id = 1, user_id = 2, book_id = 1, borrow_date = t,
      return_date = None, due_date = t + timedelta_days 14, status = ''borrowed''\<rparr>
   \<and> \<not> is_overdue (t + timedelta_days 10) \<lparr>r_id = 1, user_id = 2, book_id = 1, borrow_date = t,
      return_date = None, due_date = t + timedelta_days 14, status = ''borrowed''\<rparr>"
  by (simp add: is_overdue_def timedelta_days_def)

section \<open>Deleting a book\<close>

text \<open>While a record of the book has status \<open>borrowed\<close>, a librarian's delete request
  is answered \<open>Conflict\<close> and changes nothing.\<close>

lemma delete_book_conflict:
  assumes "current_user s sess = Some cu" and "role cu = ''librarian''"
    and "get_book s bk = Some b"
    and "r \<in> set (borrow_records s)" and "book_id r = bk" and "status r = ''borrowed''"
  shows "delete_book sess bk s = (Conflict, s)"
proof -
  have "r \<in> set (filter (\<lambda>r. book_id r = bk \<and> status r = ''borrowed'') (borrow_records s))"
    using assms(4-6) by simp
  then have "filter (\<lambda>r. book_id r = bk \<and> status r = ''borrowed'') (borrow_records s) \<noteq> []"
    by (metis empty_iff list.set(1))
  then show ?thesis
    using assms(1-3) by (simp add: delete_book_def librarian_required_def)
qed

text \<open>
  C3 at a book whose only open record is \<open>overdue\<close>: \<open>delete_book\<close> counts the
  records with status \<open>borrowed\<close> only. Book 3 of the sample has one \<open>overdue\<close>
  and one \<open>returned\<close> record; the librarian's delete request goes through, and the
  book is gone together with both records.
\<close>

theorem delete_book_overdue_deletes:
  "get_book sample_db 3 = Some (sample_books ! 2)
   \<and> map status (filter (\<lambda>r. book_id r = 3) (borrow_records sample_db))
       = [''overdue'', ''returned'']
   \<and> fst (delete_book (Some 1) 3 sample_db) = Success
   \<and> get_book (snd (delete_book (Some 1) 3 sample_db)) 3 = None
   \<and> filter (\<lambda>r. book_id r = 3) (borrow_records (snd (delete_book (Some 1) 3 sample_db))) = []"
  by (simp add: delete_book_def current_user_def get_user_def librarian_required_def
      get_book_def sample_defs)

section \<open>The invariant of the copy counts\<close>




















































lemma init_db_consistent: "consistent (init_db e)" and init_db_in_range: "counts_in_range (init_db e)"
  by (simp_all add: consistent_def counts_in_range_def open_count_def init_db_def)

lemma sample_db_consistent: "consistent sample_db"
  by (simp add: consistent_def get_book_def open_count_def sample_defs)

lemma sample_db_in_range: "counts_in_range sample_db"
  by (simp add: counts_in_range_def sample_defs)








end
